theory Spec2Isabelle
  imports Main
begin

section \<open>The Redis database plugin: credential lifecycle\<close>

text \<open>
  A shallow embedding of \<^verbatim>\<open>redis.go\<close>. Go strings are byte sequences and are modelled
  as \<^typ>\<open>string\<close>. Everything outside the plugin is explicit: the connection producer,
  the username generator, the JSON decoder and the store itself are fields of an
  environment record, and the commands the plugin issues are recorded in the state, in
  the order in which they are sent. Output written with \<^verbatim>\<open>fmt.Printf\<close> and the mutex
  are not modelled: every function below is one call, run alone.
\<close>

subsection \<open>Constants\<close>

definition redisTypeName :: string where
  "redisTypeName = ''redis''"

definition defaultRedisUserRule :: string where
  "defaultRedisUserRule = ''[\"~*\", \"+@read\"]''"

text \<open>Durations are counted in nanoseconds, as \<^verbatim>\<open>time.Duration\<close> does.\<close>

definition Millisecond :: int where
  "Millisecond = 1000000"

definition defaultTimeout :: int where
  "defaultTimeout = 20000 * Millisecond"


subsection \<open>Errors, replies and outcomes\<close>

text \<open>
  An error is either produced outside the plugin (\<open>Cause\<close>) or built by
  \<^verbatim>\<open>fmt.Errorf\<close> / \<^verbatim>\<open>errwrap.Wrapf\<close>: the format string and its arguments are kept
  apart, in the order of the call, so that no formatting has to be modelled.
\<close>

datatype error = Cause string | Errorf string "arg list"
  and arg = S string | E error

text \<open>
  What \<^verbatim>\<open>Do\<close> yields for one command: \<open>Failed e\<close> when it returns the non-nil
  error \<open>e\<close> (an error reply, a network failure), \<open>NilReply\<close> for a nil reply, and
  \<open>Reply r\<close> for any other reply.
\<close>

datatype reply = Failed error | NilReply | Reply string

text \<open>
  A call either returns or panics. The only panic of this code is the method call on a
  nil per-node client.
\<close>

datatype 'a outcome = Return 'a | Panic

subsection \<open>Client handles\<close>

type_synonym node = string

text \<open>
  A cluster handle: \<open>Topo cl i\<close> is the sequence of node addresses that the \<open>i\<close>-th
  \<^verbatim>\<open>range\<close> over \<^verbatim>\<open>Topo().Map()\<close> of the call yields (Go fixes no order for a map, and
  the topology is read again by each loop); \<open>Client cl n\<close> is the pair returned by
  \<^verbatim>\<open>Client(n)\<close>: whether the client is non-nil, and the error. A handle is a pool or
  a cluster, the two topologies of the producer; on any other \<^verbatim>\<open>radix.Client\<close> the
  type switches of the code would do nothing.
\<close>

record cluster =
  Topo :: "nat \<Rightarrow> node list"
  Client :: "node \<Rightarrow> bool \<times> error option"

datatype client = Pool node | Cluster cluster

subsection \<open>Requests\<close>

datatype username_opt = credsutil_DisplayName string nat | credsutil_RoleName string nat

record NewUserRequest =
  new_DisplayName :: string
  new_RoleName :: string
  new_Commands :: "string list"
  new_Password :: string

record UpdateUserRequest =
  upd_Username :: string
  upd_Password :: "string option"

record DeleteUserRequest =
  del_Username :: string

subsection \<open>Environment and state\<close>

text \<open>
  \<open>'p\<close> is the state of the connection producer (its cached handle), \<open>'w\<close> the state of
  the store. \<open>Connection\<close> and \<open>close\<close> are the producer's methods, whose code is not
  part of \<^verbatim>\<open>redis.go\<close>; \<open>Do\<close> runs one command on one node; \<open>Unmarshal\<close> is
  \<^verbatim>\<open>json.Unmarshal\<close> into a \<^verbatim>\<open>[]string\<close>; \<open>GenerateUsername\<close> is the generator of
  the Vault SDK.
\<close>

record ('p, 'w) env =
  GenerateUsername :: "username_opt list \<Rightarrow> error + string"
  Connection :: "'p \<Rightarrow> (error + client) \<times> 'p"
  close :: "'p \<Rightarrow> error option \<times> 'p"
  Do :: "node \<Rightarrow> string list \<Rightarrow> 'w \<Rightarrow> reply \<times> 'w"
  Unmarshal :: "string \<Rightarrow> error + string list"

record ('p, 'w) state =
  producer :: 'p
  world :: 'w
  sent :: "(node \<times> string list) list"
  hclog :: "(string \<times> error) list"

text \<open>Sending one command: the store answers and moves on, and the command is recorded.\<close>

definition exec :: "('p, 'w) env \<Rightarrow> node \<Rightarrow> string list \<Rightarrow> ('p, 'w) state
    \<Rightarrow> reply \<times> ('p, 'w) state" where
  "exec env n cmd s =
     (case Do env n cmd (world s) of
        (r, w') \<Rightarrow> (r, s\<lparr>world := w', sent := sent s @ [(n, cmd)]\<rparr>))"

text \<open>
  The string receiver of a command after \<^verbatim>\<open>Do\<close>: untouched when \<^verbatim>\<open>Do\<close> fails, the
  zero value for a nil reply, the reply otherwise.
\<close>

fun received :: "reply \<Rightarrow> string \<Rightarrow> string" where
  "received (Failed e) response = response"
| "received NilReply response = []"
| "received (Reply r) response = r"

subsection \<open>Strings\<close>





definition isSpace :: "char \<Rightarrow> bool" where
  "isSpace c = ((of_char c :: nat) \<in> {9, 10, 11, 12, 13, 32})"

definition TrimSpace :: "string \<Rightarrow> string" where
  "TrimSpace s = rev (dropWhile isSpace (rev (dropWhile isSpace s)))"

subsection \<open>removeEmpty\<close>

fun removeEmpty :: "string list \<Rightarrow> string list" where
  "removeEmpty [] = []"
| "removeEmpty (str # strs) =
     (if TrimSpace str = [] then removeEmpty strs else TrimSpace str # removeEmpty strs)"

subsection \<open>computeTimeout\<close>

text \<open>
  Instants are nanoseconds on the time line. \<^verbatim>\<open>time.Until(d)\<close> is \<^verbatim>\<open>d.Sub(time.Now())\<close>,
  which saturates at the least and greatest \<^verbatim>\<open>Duration\<close> (a signed 64-bit count).
\<close>

definition maxDuration :: int where
  "maxDuration = 2 ^ 63 - 1"

definition minDuration :: int where
  "minDuration = - (2 ^ 63)"

definition time_Until :: "int \<Rightarrow> int \<Rightarrow> int" where
  "time_Until deadline now =
     (if deadline - now > maxDuration then maxDuration
      else if deadline - now < minDuration then minDuration
      else deadline - now)"

record Context =
  Deadline :: "int option"

definition computeTimeout :: "Context \<Rightarrow> int \<Rightarrow> int" where
  "computeTimeout ctx now =
     (case Deadline ctx of
        Some deadline \<Rightarrow> time_Until deadline now
      | None \<Rightarrow> defaultTimeout)"

subsection \<open>The deferred close\<close>

definition deferred_close :: "('p, 'w) env \<Rightarrow> ('p, 'w) state \<Rightarrow> ('p, 'w) state" where
  "deferred_close env s =
     (case close env (producer s) of
        (None, p') \<Rightarrow> s\<lparr>producer := p'\<rparr>
      | (Some err, p') \<Rightarrow>
          s\<lparr>producer := p', hclog := hclog s @ [(''defer close failed'', err)]\<rparr>)"

subsection \<open>DeleteUser\<close>

fun DeleteUser_cluster :: "('p, 'w) env \<Rightarrow> cluster \<Rightarrow> string \<Rightarrow> node list \<Rightarrow> string
    \<Rightarrow> ('p, 'w) state \<Rightarrow> error option outcome \<times> ('p, 'w) state" where
  "DeleteUser_cluster env cl username [] response s = (Return None, s)"
| "DeleteUser_cluster env cl username (n # nodes) response s =
     (if \<not> fst (Client cl n) then (Panic, s)
      else case exec env n [''ACL'', ''DELUSER'', username] s of
        (Failed err, s') \<Rightarrow>
          (Return (Some (Errorf
             ''response from cluster node %s for DeleteUser: %s, error: %w''
             [S n, S response, E err])), s')
      | (r, s') \<Rightarrow> DeleteUser_cluster env cl username nodes (received r response) s')"

text \<open>The \<^verbatim>\<open>switch\<close> of \<^verbatim>\<open>DeleteUser\<close>, between the \<^verbatim>\<open>defer\<close> and the deferred call.\<close>

fun DeleteUser_commands :: "('p, 'w) env \<Rightarrow> client \<Rightarrow> string \<Rightarrow> ('p, 'w) state
    \<Rightarrow> error option outcome \<times> ('p, 'w) state" where
  "DeleteUser_commands env (Pool n) username s =
     (case exec env n [''ACL'', ''DELUSER'', username] s of
        (Failed err, s') \<Rightarrow>
          (Return (Some (Errorf ''response from pool DeleteUser: %s, error: %w''
             [S [], E err])), s')
      | (r, s') \<Rightarrow> (Return None, s'))"
| "DeleteUser_commands env (Cluster cl) username s =
     DeleteUser_cluster env cl username (Topo cl 0) [] s"

definition DeleteUser :: "('p, 'w) env \<Rightarrow> DeleteUserRequest \<Rightarrow> ('p, 'w) state
    \<Rightarrow> error option outcome \<times> ('p, 'w) state" where
  "DeleteUser env req s =
     (case Connection env (producer s) of
        (Inl err, p) \<Rightarrow>
          (Return (Some (Errorf ''failed to make connection: %w'' [E err])),
           s\<lparr>producer := p\<rparr>)
      | (Inr db, p) \<Rightarrow>
          (case DeleteUser_commands env db (del_Username req) (s\<lparr>producer := p\<rparr>) of
             (out, s') \<Rightarrow> (out, deferred_close env s')))"

subsection \<open>newUser and NewUser\<close>

fun newUser_cluster :: "('p, 'w) env \<Rightarrow> cluster \<Rightarrow> string list \<Rightarrow> node list
    \<Rightarrow> ('p, 'w) state \<Rightarrow> error option outcome \<times> ('p, 'w) state" where
  "newUser_cluster env cl cmd [] s = (Return None, s)"
| "newUser_cluster env cl cmd (n # nodes) s =
     (if \<not> fst (Client cl n) then (Panic, s)
      else case exec env n cmd s of
        (Failed err, s') \<Rightarrow> (Return (Some err), s')
      | (r, s') \<Rightarrow> newUser_cluster env cl cmd nodes s')"

text \<open>The \<^verbatim>\<open>switch\<close> of \<^verbatim>\<open>newUser\<close>; \<open>cmd\<close> is \<^verbatim>\<open>"ACL"\<close> followed by \<^verbatim>\<open>aclargs\<close>.\<close>

fun newUser_send :: "('p, 'w) env \<Rightarrow> client \<Rightarrow> string list \<Rightarrow> ('p, 'w) state
    \<Rightarrow> error option outcome \<times> ('p, 'w) state" where
  "newUser_send env (Pool n) cmd s =
     (case exec env n cmd s of
        (Failed err, s') \<Rightarrow> (Return (Some err), s')
      | (r, s') \<Rightarrow> (Return None, s'))"
| "newUser_send env (Cluster cl) cmd s = newUser_cluster env cl cmd (Topo cl 0) s"

definition newUser :: "('p, 'w) env \<Rightarrow> client \<Rightarrow> string \<Rightarrow> NewUserRequest
    \<Rightarrow> ('p, 'w) state \<Rightarrow> error option outcome \<times> ('p, 'w) state" where
  "newUser env db username req s =
     (let statements = removeEmpty (new_Commands req);
          statements = (if statements = [] then statements @ [defaultRedisUserRule]
                        else statements);
          aclargs = [''SETUSER'', username, ''ON'', ''>'' @ new_Password req]
      in case statements of
           [] \<Rightarrow> (Panic, s)
         | st # _ \<Rightarrow>
             (case Unmarshal env st of
                Inl err \<Rightarrow>
                  (Return (Some (Errorf
                     ''error unmarshalling REDIS rules in the creation statement JSON: {{err}}''
                     [E err])), s)
              | Inr args \<Rightarrow> newUser_send env db (''ACL'' # aclargs @ args) s))"


subsection \<open>changeUserPassword and UpdateUser\<close>

text \<open>
  The first loop over the cluster: the lookup on every node. \<open>Return None\<close> stands for
  the loop running to its end, after which the function goes on to the second
  \<^verbatim>\<open>switch\<close>.
\<close>

fun changeUserPassword_lookup :: "('p, 'w) env \<Rightarrow> cluster \<Rightarrow> string \<Rightarrow> node list
    \<Rightarrow> ('p, 'w) state \<Rightarrow> error option outcome \<times> ('p, 'w) state" where
  "changeUserPassword_lookup env cl username [] s = (Return None, s)"
| "changeUserPassword_lookup env cl username (n # nodes) s =
     (if \<not> fst (Client cl n) then (Panic, s)
      else case exec env n [''ACL'', ''GETUSER'', username] s of
        (Failed err, s') \<Rightarrow>
          (Return (Some (Errorf
             ''reset of passwords for user %s failed in changeUserPassword on cluster member %s: %w''
             [S username, S n, E err])), s')
      | (NilReply, s') \<Rightarrow>
          (Return (Some (Errorf
             ''changeUserPassword for user %s failed on cluster member %s, user not found!''
             [S n, S username])), s')
      | (Reply r, s') \<Rightarrow> changeUserPassword_lookup env cl username nodes s')"

fun changeUserPassword_reset :: "('p, 'w) env \<Rightarrow> cluster \<Rightarrow> string \<Rightarrow> string \<Rightarrow> node list
    \<Rightarrow> string \<Rightarrow> ('p, 'w) state \<Rightarrow> error option outcome \<times> ('p, 'w) state" where
  "changeUserPassword_reset env cl username password [] sresponse s = (Return None, s)"
| "changeUserPassword_reset env cl username password (n # nodes) sresponse s =
     (if \<not> fst (Client cl n) then (Panic, s)
      else case exec env n
                  [''ACL'', ''SETUSER'', username, ''RESETPASS'', ''>'' @ password] s of
        (Failed err, s') \<Rightarrow>
          (Return (Some (Errorf
             ''cluster reset of password for user %s on node %s failed, REDIS response %s, error, %s''
             [S username, S n, S sresponse, E err])), s')
      | (r, s') \<Rightarrow>
          changeUserPassword_reset env cl username password nodes (received r sresponse) s')"

text \<open>The two \<^verbatim>\<open>switch\<close> statements of \<^verbatim>\<open>changeUserPassword\<close>.\<close>

fun changeUserPassword_commands :: "('p, 'w) env \<Rightarrow> client \<Rightarrow> string \<Rightarrow> string
    \<Rightarrow> ('p, 'w) state \<Rightarrow> error option outcome \<times> ('p, 'w) state" where
  "changeUserPassword_commands env (Pool n) username password s =
     (case exec env n [''ACL'', ''GETUSER'', username] s of
        (Failed err, s') \<Rightarrow>
          (Return (Some (Errorf
             ''reset of passwords for user %s failed in changeUserPassword: %w''
             [S username, E err])), s')
      | (NilReply, s') \<Rightarrow>
          (Return (Some (Errorf
             ''changeUserPassword for user %s failed, user not found!'' [S username])), s')
      | (Reply r, s') \<Rightarrow>
          (case exec env n
                  [''ACL'', ''SETUSER'', username, ''RESETPASS'', ''>'' @ password] s' of
             (Failed err, s'') \<Rightarrow>
               (Return (Some (Errorf
                  ''pool reset of password for user %s failed, REDIS response %s, error, %s''
                  [S username, S [], E err])), s'')
           | (r', s'') \<Rightarrow> (Return None, s'')))"
| "changeUserPassword_commands env (Cluster cl) username password s =
     (case changeUserPassword_lookup env cl username (Topo cl 0) s of
        (Return None, s') \<Rightarrow>
          changeUserPassword_reset env cl username password (Topo cl 1) [] s'
      | (out, s') \<Rightarrow> (out, s'))"

definition changeUserPassword :: "('p, 'w) env \<Rightarrow> string \<Rightarrow> string \<Rightarrow> ('p, 'w) state
    \<Rightarrow> error option outcome \<times> ('p, 'w) state" where
  "changeUserPassword env username password s =
     (case Connection env (producer s) of
        (Inl err, p) \<Rightarrow> (Return (Some err), s\<lparr>producer := p\<rparr>)
      | (Inr db, p) \<Rightarrow>
          (case changeUserPassword_commands env db username password (s\<lparr>producer := p\<rparr>) of
             (out, s') \<Rightarrow> (out, deferred_close env s')))"

definition UpdateUser :: "('p, 'w) env \<Rightarrow> UpdateUserRequest \<Rightarrow> ('p, 'w) state
    \<Rightarrow> error option outcome \<times> ('p, 'w) state" where
  "UpdateUser env req s =
     (case upd_Password req of
        Some newPassword \<Rightarrow> changeUserPassword env (upd_Username req) newPassword s
      | None \<Rightarrow> (Return None, s))"

subsection \<open>The username generator of the Vault SDK\<close>

text \<open>
  \<^verbatim>\<open>credsutil.GenerateUsername\<close> belongs to the Vault SDK
  (\<^verbatim>\<open>sdk/database/helper/credsutil/usernames.go\<close>), not to this repository. Its builder
  starts with the separator \<^verbatim>\<open>"_"\<close> and the maximum length 100; the options
  \<^verbatim>\<open>DisplayName\<close> and \<^verbatim>\<open>RoleName\<close> store the name they carry, truncated to their
  own bound; the username is \<^verbatim>\<open>v\<close>, the display name, the role name, 20 random
  alphanumeric characters and the Unix time, joined by the separator with empty parts
  left out, and truncated to the maximum length. The random characters (or the error of
  the random source) and the decimal rendering of the clock are arguments. Only
  positive bounds occur here.
\<close>

record usernameBuilder =
  displayName :: string
  roleName :: string
  separator :: string
  maxLen :: nat

definition trunc :: "string \<Rightarrow> nat \<Rightarrow> string" where
  "trunc str l = (if l > length str then str else take l str)"

fun apply_opt :: "usernameBuilder \<Rightarrow> username_opt \<Rightarrow> usernameBuilder" where
  "apply_opt b (credsutil_DisplayName dispName maxLength) =
     b\<lparr>displayName := trunc dispName maxLength\<rparr>"
| "apply_opt b (credsutil_RoleName rName maxLength) =
     b\<lparr>roleName := trunc rName maxLength\<rparr>"

fun joinNonEmpty_loop :: "string \<Rightarrow> string \<Rightarrow> string list \<Rightarrow> string" where
  "joinNonEmpty_loop sep builder [] = builder"
| "joinNonEmpty_loop sep builder (val # vals) =
     (if val = [] then joinNonEmpty_loop sep builder vals
      else joinNonEmpty_loop sep
             ((if builder \<noteq> [] then builder @ sep else builder) @ val) vals)"

definition joinNonEmpty :: "string \<Rightarrow> string list \<Rightarrow> string" where
  "joinNonEmpty sep vals =
     (if sep = [] then concat vals else joinNonEmpty_loop sep [] vals)"

definition makeUsername :: "usernameBuilder \<Rightarrow> error + string \<Rightarrow> string
    \<Rightarrow> error + string" where
  "makeUsername b random now =
     (case random of
        Inl err \<Rightarrow> Inl err
      | Inr userUUID \<Rightarrow>
          Inr (trunc (joinNonEmpty (separator b)
                        [''v'', displayName b, roleName b, userUUID, now])
                     (maxLen b)))"

definition credsutil_GenerateUsername :: "error + string \<Rightarrow> string \<Rightarrow> username_opt list
    \<Rightarrow> error + string" where
  "credsutil_GenerateUsername random now opts =
     makeUsername
       (foldl apply_opt
          \<lparr>displayName = [], roleName = [], separator = ''_'', maxLen = 100\<rparr> opts)
       random now"

subsection \<open>A reference environment\<close>

text \<open>
  A small store and producer on which the functions above can be run. The store keeps,
  per node, the names of the users that exist there; \<open>failing\<close> lists the pairs of a
  node and an ACL subcommand that the node answers with an error.
\<close>

record redis =
  users :: "(node \<times> string) list"
  failing :: "(node \<times> string) list"

definition redis_Do :: "node \<Rightarrow> string list \<Rightarrow> redis \<Rightarrow> reply \<times> redis" where
  "redis_Do n cmd w =
     (case cmd of
        acl # sub # u # rest \<Rightarrow>
          (if (n, sub) \<in> set (failing w) then (Failed (Cause ''ERR''), w)
           else if sub = ''GETUSER'' then
             (if (n, u) \<in> set (users w) then (Reply ''flags'', w) else (NilReply, w))
           else if sub = ''SETUSER'' then
             (Reply ''OK'', w\<lparr>users := List.insert (n, u) (users w)\<rparr>)
           else if sub = ''DELUSER'' then
             (Reply (if (n, u) \<in> set (users w) then ''1'' else ''0''),
              w\<lparr>users := removeAll (n, u) (users w)\<rparr>)
           else (Failed (Cause ''ERR unknown subcommand''), w))
      | _ \<Rightarrow> (Failed (Cause ''ERR wrong number of arguments''), w))"

text \<open>
  Modelled from the spec: the connection producer, whose source file is not at hand.
  \<open>Connection\<close> returns the cached handle if there is one and otherwise establishes and
  caches a new one (\<open>dial\<close> is what establishing yields); \<open>Close\<close> releases the cached
  handle and clears it, and may report an error.
\<close>

definition producer_Connection :: "error + client \<Rightarrow> client option
    \<Rightarrow> (error + client) \<times> client option" where
  "producer_Connection dial cached =
     (case cached of
        Some c \<Rightarrow> (Inr c, cached)
      | None \<Rightarrow> (case dial of Inl err \<Rightarrow> (Inl err, None) | Inr c \<Rightarrow> (Inr c, Some c)))"

definition producer_close :: "error option \<Rightarrow> client option \<Rightarrow> error option \<times> client option" where
  "producer_close closeErr cached = (closeErr, None)"

text \<open>
  The decoder of the reference environment knows the default rule and one more
  statement; every other statement is undecodable for it.
\<close>

definition decode_rules :: "string \<Rightarrow> error + string list" where
  "decode_rules st =
     (if st = defaultRedisUserRule then Inr [''~*'', ''+@read'']
      else if st = ''[\"+@admin\"]'' then Inr [''+@admin'']
      else Inl (Cause ''invalid character''))"

definition reference_env :: "error + client \<Rightarrow> error option \<Rightarrow> (client option, redis) env" where
  "reference_env dial closeErr =
     \<lparr>GenerateUsername =
        credsutil_GenerateUsername (Inr ''abcdefghij0123456789'') ''1700000000'',
      Connection = producer_Connection dial,
      close = producer_close closeErr,
      Do = redis_Do,
      Unmarshal = decode_rules\<rparr>"

definition three_nodes :: cluster where
  "three_nodes = \<lparr>Topo = (\<lambda>i. [''n1'', ''n2'', ''n3'']), Client = (\<lambda>n. (True, None))\<rparr>"

definition start :: "redis \<Rightarrow> (client option, redis) state" where
  "start w = \<lparr>producer = None, world = w, sent = [], hclog = []\<rparr>"

subsection \<open>Describing a fan-out\<close>

text \<open>
  Vocabulary for the statements below. \<open>accepted env cmd nodes w\<close>: sent to the nodes
  in this order, starting from the store state \<open>w\<close>, the command is answered by each
  of them without an error. \<open>found\<close>: each answer is a reply other than nil.
  \<open>after\<close>: the store state that results. \<open>to_each\<close>: the record of sending the command
  to these nodes. \<open>has_client\<close>: \<^verbatim>\<open>Client\<close> returns a non-nil client for each node.
\<close>

fun accepted :: "('p, 'w) env \<Rightarrow> string list \<Rightarrow> node list \<Rightarrow> 'w \<Rightarrow> bool" where
  "accepted env cmd [] w = True"
| "accepted env cmd (n # nodes) w =
     (case Do env n cmd w of
        (Failed err, w') \<Rightarrow> False
      | (r, w') \<Rightarrow> accepted env cmd nodes w')"

fun found :: "('p, 'w) env \<Rightarrow> string list \<Rightarrow> node list \<Rightarrow> 'w \<Rightarrow> bool" where
  "found env cmd [] w = True"
| "found env cmd (n # nodes) w =
     (case Do env n cmd w of
        (Reply r, w') \<Rightarrow> found env cmd nodes w'
      | (r, w') \<Rightarrow> False)"

fun after :: "('p, 'w) env \<Rightarrow> string list \<Rightarrow> node list \<Rightarrow> 'w \<Rightarrow> 'w" where
  "after env cmd [] w = w"
| "after env cmd (n # nodes) w = after env cmd nodes (snd (Do env n cmd w))"

text \<open>The string receiver after the nodes have answered, in this order.\<close>

fun heard :: "('p, 'w) env \<Rightarrow> string list \<Rightarrow> node list \<Rightarrow> 'w \<Rightarrow> string \<Rightarrow> string" where
  "heard env cmd [] w response = response"
| "heard env cmd (n # nodes) w response =
     heard env cmd nodes (snd (Do env n cmd w)) (received (fst (Do env n cmd w)) response)"

definition to_each :: "string list \<Rightarrow> node list \<Rightarrow> (node \<times> string list) list" where
  "to_each cmd nodes = map (\<lambda>n. (n, cmd)) nodes"

definition has_client :: "cluster \<Rightarrow> node list \<Rightarrow> bool" where
  "has_client cl nodes = list_all (\<lambda>n. fst (Client cl n)) nodes"

section \<open>Properties\<close>

subsection \<open>Sending and the fan-out vocabulary\<close>

lemma exec_eq:
  "exec env n cmd s =
     (fst (Do env n cmd (world s)),
      s\<lparr>world := snd (Do env n cmd (world s)), sent := sent s @ [(n, cmd)]\<rparr>)"
  by (simp add: exec_def split: prod.splits)

lemma to_each_simps:
  "to_each cmd [] = []"
  "to_each cmd (n # nodes) = (n, cmd) # to_each cmd nodes"
  "to_each cmd (xs @ ys) = to_each cmd xs @ to_each cmd ys"
  by (simp_all add: to_each_def)

lemma has_client_simps:
  "has_client cl [] = True"
  "has_client cl (n # nodes) = (fst (Client cl n) \<and> has_client cl nodes)"
  "has_client cl (xs @ ys) = (has_client cl xs \<and> has_client cl ys)"
  by (simp_all add: has_client_def)

lemma after_append: "after env cmd (xs @ ys) w = after env cmd ys (after env cmd xs w)"
  by (induction xs arbitrary: w) simp_all

lemma accepted_append:
  "accepted env cmd (xs @ ys) w =
     (accepted env cmd xs w \<and> accepted env cmd ys (after env cmd xs w))"
  by (induction xs arbitrary: w) (auto split: prod.splits reply.splits)

lemma found_append:
  "found env cmd (xs @ ys) w = (found env cmd xs w \<and> found env cmd ys (after env cmd xs w))"
  by (induction xs arbitrary: w) (auto split: prod.splits reply.splits)

lemma state_same: "s\<lparr>world := world s, sent := sent s @ []\<rparr> = s"
  by simp

subsection \<open>The loop of DeleteUser\<close>

lemma DeleteUser_cluster_append:
  "has_client cl pre \<Longrightarrow> accepted env [''ACL'', ''DELUSER'', u] pre (world s) \<Longrightarrow>
   DeleteUser_cluster env cl u (pre @ rest) response s =
     DeleteUser_cluster env cl u rest
       (heard env [''ACL'', ''DELUSER'', u] pre (world s) response)
       (s\<lparr>world := after env [''ACL'', ''DELUSER'', u] pre (world s),
          sent := sent s @ to_each [''ACL'', ''DELUSER'', u] pre\<rparr>)"
proof (induction pre arbitrary: response s)
  case Nil
  then show ?case by (simp add: to_each_simps)
next
  case (Cons n pre)
  then show ?case
    by (cases "fst (Do env n [''ACL'', ''DELUSER'', u] (world s))")
       (simp_all add: exec_eq has_client_simps to_each_simps split: prod.splits)
qed


lemma DeleteUser_cluster_complete:
  "has_client cl nodes \<Longrightarrow> accepted env [''ACL'', ''DELUSER'', u] nodes (world s) \<Longrightarrow>
   DeleteUser_cluster env cl u nodes response s =
     (Return None,
      s\<lparr>world := after env [''ACL'', ''DELUSER'', u] nodes (world s),
        sent := sent s @ to_each [''ACL'', ''DELUSER'', u] nodes\<rparr>)"
  using DeleteUser_cluster_append [of cl nodes env u s "[]" response] by simp


subsection \<open>newUser loop\<close>





subsection \<open>changeUserPassword loops\<close>

lemma changeUserPassword_lookup_append:
  "has_client cl pre \<Longrightarrow> found env [''ACL'', ''GETUSER'', u] pre (world s) \<Longrightarrow>
   changeUserPassword_lookup env cl u (pre @ rest) s =
     changeUserPassword_lookup env cl u rest
       (s\<lparr>world := after env [''ACL'', ''GETUSER'', u] pre (world s),
          sent := sent s @ to_each [''ACL'', ''GETUSER'', u] pre\<rparr>)"
proof (induction pre arbitrary: s)
  case Nil
  then show ?case by (simp add: to_each_simps)
next
  case (Cons n pre)
  then show ?case
    by (cases "fst (Do env n [''ACL'', ''GETUSER'', u] (world s))")
       (simp_all add: exec_eq has_client_simps to_each_simps split: prod.splits)
qed

lemma changeUserPassword_lookup_complete:
  "has_client cl nodes \<Longrightarrow> found env [''ACL'', ''GETUSER'', u] nodes (world s) \<Longrightarrow>
   changeUserPassword_lookup env cl u nodes s =
     (Return None,
      s\<lparr>world := after env [''ACL'', ''GETUSER'', u] nodes (world s),
        sent := sent s @ to_each [''ACL'', ''GETUSER'', u] nodes\<rparr>)"
  using changeUserPassword_lookup_append [of cl nodes env u s "[]"] by simp

lemma changeUserPassword_lookup_missing:
  assumes "has_client cl (pre @ [k])"
    and "found env [''ACL'', ''GETUSER'', u] pre (world s)"
    and "fst (Do env k [''ACL'', ''GETUSER'', u] (after env [''ACL'', ''GETUSER'', u] pre (world s)))
           = NilReply"
  shows "changeUserPassword_lookup env cl u (pre @ k # post) s =
     (Return (Some (Errorf
        ''changeUserPassword for user %s failed on cluster member %s, user not found!''
        [S k, S u])),
      s\<lparr>world := after env [''ACL'', ''GETUSER'', u] (pre @ [k]) (world s),
        sent := sent s @ to_each [''ACL'', ''GETUSER'', u] (pre @ [k])\<rparr>)"
  using assms
  by (simp add: changeUserPassword_lookup_append has_client_simps exec_eq to_each_simps
      after_append)


lemma changeUserPassword_reset_append:
  "has_client cl pre \<Longrightarrow>
   accepted env [''ACL'', ''SETUSER'', u, ''RESETPASS'', ''>'' @ pw] pre (world s) \<Longrightarrow>
   changeUserPassword_reset env cl u pw (pre @ rest) sresponse s =
     changeUserPassword_reset env cl u pw rest
       (heard env [''ACL'', ''SETUSER'', u, ''RESETPASS'', ''>'' @ pw] pre (world s) sresponse)
       (s\<lparr>world := after env [''ACL'', ''SETUSER'', u, ''RESETPASS'', ''>'' @ pw] pre (world s),
          sent := sent s @ to_each [''ACL'', ''SETUSER'', u, ''RESETPASS'', ''>'' @ pw] pre\<rparr>)"
proof (induction pre arbitrary: sresponse s)
  case Nil
  then show ?case by (simp add: to_each_simps)
next
  case (Cons n pre)
  then show ?case
    by (cases "fst (Do env n [''ACL'', ''SETUSER'', u, ''RESETPASS'', ''>'' @ pw] (world s))")
       (simp_all add: exec_eq has_client_simps to_each_simps split: prod.splits)
qed

lemma changeUserPassword_reset_complete:
  "has_client cl nodes \<Longrightarrow>
   accepted env [''ACL'', ''SETUSER'', u, ''RESETPASS'', ''>'' @ pw] nodes (world s) \<Longrightarrow>
   changeUserPassword_reset env cl u pw nodes sresponse s =
     (Return None,
      s\<lparr>world := after env [''ACL'', ''SETUSER'', u, ''RESETPASS'', ''>'' @ pw] nodes (world s),
        sent := sent s @ to_each [''ACL'', ''SETUSER'', u, ''RESETPASS'', ''>'' @ pw] nodes\<rparr>)"
  using changeUserPassword_reset_append [of cl nodes env u pw s "[]" sresponse] by simp

lemma changeUserPassword_reset_stops:
  assumes "has_client cl (pre @ [k])"
    and "accepted env [''ACL'', ''SETUSER'', u, ''RESETPASS'', ''>'' @ pw] pre (world s)"
    and "fst (Do env k [''ACL'', ''SETUSER'', u, ''RESETPASS'', ''>'' @ pw]
           (after env [''ACL'', ''SETUSER'', u, ''RESETPASS'', ''>'' @ pw] pre (world s)))
           = Failed err"
  shows "changeUserPassword_reset env cl u pw (pre @ k # post) sresponse s =
     (Return (Some (Errorf
        ''cluster reset of password for user %s on node %s failed, REDIS response %s, error, %s''
        [S u, S k,
         S (heard env [''ACL'', ''SETUSER'', u, ''RESETPASS'', ''>'' @ pw] pre (world s) sresponse),
         E err])),
      s\<lparr>world := after env [''ACL'', ''SETUSER'', u, ''RESETPASS'', ''>'' @ pw] (pre @ [k]) (world s),
        sent := sent s @ to_each [''ACL'', ''SETUSER'', u, ''RESETPASS'', ''>'' @ pw] (pre @ [k])\<rparr>)"
  using assms
  by (simp add: changeUserPassword_reset_append has_client_simps exec_eq to_each_simps
      after_append)

subsection \<open>Frame: producer and log\<close>

lemma DeleteUser_cluster_frame:
  "producer (snd (DeleteUser_cluster env cl u nodes response s)) = producer s \<and>
   hclog (snd (DeleteUser_cluster env cl u nodes response s)) = hclog s"
  by (induction nodes arbitrary: response s)
     (auto simp: exec_eq split: prod.splits reply.splits)

lemma DeleteUser_commands_frame:
  "producer (snd (DeleteUser_commands env db u s)) = producer s \<and>
   hclog (snd (DeleteUser_commands env db u s)) = hclog s"
  by (cases db) (auto simp: exec_eq DeleteUser_cluster_frame split: prod.splits reply.splits)

lemma changeUserPassword_lookup_frame:
  "producer (snd (changeUserPassword_lookup env cl u nodes s)) = producer s \<and>
   hclog (snd (changeUserPassword_lookup env cl u nodes s)) = hclog s"
  by (induction nodes arbitrary: s)
     (auto simp: exec_eq split: prod.splits reply.splits)

lemma changeUserPassword_reset_frame:
  "producer (snd (changeUserPassword_reset env cl u pw nodes sresponse s)) = producer s \<and>
   hclog (snd (changeUserPassword_reset env cl u pw nodes sresponse s)) = hclog s"
  by (induction nodes arbitrary: sresponse s)
     (auto simp: exec_eq split: prod.splits reply.splits)

lemma changeUserPassword_commands_frame:
  "producer (snd (changeUserPassword_commands env db u pw s)) = producer s \<and>
   hclog (snd (changeUserPassword_commands env db u pw s)) = hclog s"
proof (cases db)
  case (Pool n)
  then show ?thesis
    by (auto simp: exec_eq split: prod.splits reply.splits)
next
  case (Cluster cl)
  obtain out s' where l: "changeUserPassword_lookup env cl u (Topo cl 0) s = (out, s')"
    by (cases "changeUserPassword_lookup env cl u (Topo cl 0) s")
  have f: "producer s' = producer s \<and> hclog s' = hclog s"
    using changeUserPassword_lookup_frame [of env cl u "Topo cl 0" s] l by simp
  show ?thesis
    using Cluster l f changeUserPassword_reset_frame [of env cl u pw "Topo cl 1" "[]" s']
    by (auto split: outcome.splits option.splits)
qed

subsection \<open>UpdateUser without a password change\<close>

text \<open>
  Claim C8. An \<^verbatim>\<open>UpdateUser\<close> request that carries no password change is a no-op: it
  returns no error, and the whole state is as before, so no command was sent, and the
  producer (with its cached connection) and the store are untouched.
\<close>

theorem UpdateUser_without_password_is_noop:
  "upd_Password req = None \<Longrightarrow> UpdateUser env req s = (Return None, s)"
  by (simp add: UpdateUser_def)

theorem UpdateUser_without_password_is_noop_witness:
  "upd_Password \<lparr>upd_Username = ''U'', upd_Password = None\<rparr> = None \<and>
   UpdateUser (reference_env (Inr (Pool ''n1'')) None)
      \<lparr>upd_Username = ''U'', upd_Password = None\<rparr> (start \<lparr>users = [], failing = []\<rparr>)
    = (Return None, start \<lparr>users = [], failing = []\<rparr>)"
proof -
  have h: "upd_Password \<lparr>upd_Username = ''U'', upd_Password = None\<rparr> = None"
    by simp
  show ?thesis
    using h UpdateUser_without_password_is_noop [OF h] by simp
qed

subsection \<open>computeTimeout\<close>

text \<open>
  Claim C9. Without a deadline the timeout is the default of 20 seconds. With a deadline
  \<open>d\<close> it is \<^verbatim>\<open>time.Until(d)\<close>, which is the time remaining, \<open>d - now\<close>, whenever that
  is a \<^verbatim>\<open>Duration\<close> (about 292 years either way).
\<close>

theorem computeTimeout_deadline_or_default:
  "(Deadline ctx = None \<longrightarrow> computeTimeout ctx now = 20 * 1000000000) \<and>
   (Deadline ctx = Some d \<longrightarrow>
      computeTimeout ctx now = time_Until d now \<and>
      (minDuration \<le> d - now \<and> d - now \<le> maxDuration \<longrightarrow> computeTimeout ctx now = d - now))"
  by (simp add: computeTimeout_def defaultTimeout_def Millisecond_def time_Until_def)

theorem computeTimeout_deadline_or_default_witness:
  "computeTimeout \<lparr>Deadline = None\<rparr> 2000000000 = 20000000000 \<and>
   computeTimeout \<lparr>Deadline = Some 5000000000\<rparr> 2000000000 = 3000000000"
proof -
  have a: "Deadline \<lparr>Deadline = None\<rparr> = None" by simp
  have b: "Deadline \<lparr>Deadline = Some 5000000000\<rparr> = Some 5000000000" by simp
  have c: "minDuration \<le> 5000000000 - 2000000000 \<and> 5000000000 - 2000000000 \<le> maxDuration"
    by (simp add: minDuration_def maxDuration_def)
  show ?thesis
    using a b c
      computeTimeout_deadline_or_default [of "\<lparr>Deadline = None\<rparr>" 2000000000 0]
      computeTimeout_deadline_or_default
        [of "\<lparr>Deadline = Some 5000000000\<rparr>" 2000000000 5000000000]
    by simp
qed

subsection \<open>The reference environment\<close>

lemma reference_env_simps:
  "Connection (reference_env dial closeErr) = producer_Connection dial"
  "close (reference_env dial closeErr) = producer_close closeErr"
  "Do (reference_env dial closeErr) = redis_Do"
  "Unmarshal (reference_env dial closeErr) = decode_rules"
  "GenerateUsername (reference_env dial closeErr) =
     credsutil_GenerateUsername (Inr ''abcdefghij0123456789'') ''1700000000''"
  by (simp_all add: reference_env_def)

subsection \<open>The deferred close\<close>

lemma deferred_close_simps:
  "producer (deferred_close env s) = snd (close env (producer s))"
  "hclog (deferred_close env s) =
     hclog s @ (case fst (close env (producer s)) of
                  None \<Rightarrow> []
                | Some err \<Rightarrow> [(''defer close failed'', err)])"
  "world (deferred_close env s) = world s"
  "sent (deferred_close env s) = sent s"
  by (simp_all add: deferred_close_def split: prod.splits option.splits)

lemma exec_close_irrelevant: "exec (env\<lparr>close := c\<rparr>) n cmd s = exec env n cmd s"
  by (simp add: exec_def)

lemma DeleteUser_cluster_close_irrelevant:
  "DeleteUser_cluster (env\<lparr>close := c\<rparr>) cl u nodes response s =
   DeleteUser_cluster env cl u nodes response s"
  by (induction nodes arbitrary: response s)
     (auto simp: exec_close_irrelevant split: prod.splits reply.splits)

lemma DeleteUser_commands_close_irrelevant:
  "DeleteUser_commands (env\<lparr>close := c\<rparr>) db u s = DeleteUser_commands env db u s"
  by (cases db) (simp_all add: exec_close_irrelevant DeleteUser_cluster_close_irrelevant)

lemma changeUserPassword_lookup_close_irrelevant:
  "changeUserPassword_lookup (env\<lparr>close := c\<rparr>) cl u nodes s =
   changeUserPassword_lookup env cl u nodes s"
  by (induction nodes arbitrary: s)
     (auto simp: exec_close_irrelevant split: prod.splits reply.splits)

lemma changeUserPassword_reset_close_irrelevant:
  "changeUserPassword_reset (env\<lparr>close := c\<rparr>) cl u pw nodes sresponse s =
   changeUserPassword_reset env cl u pw nodes sresponse s"
  by (induction nodes arbitrary: sresponse s)
     (auto simp: exec_close_irrelevant split: prod.splits reply.splits)

lemma changeUserPassword_commands_close_irrelevant:
  "changeUserPassword_commands (env\<lparr>close := c\<rparr>) db u pw s =
   changeUserPassword_commands env db u pw s"
  by (cases db)
     (auto simp: exec_close_irrelevant changeUserPassword_lookup_close_irrelevant
        changeUserPassword_reset_close_irrelevant
        split: prod.splits reply.splits outcome.splits option.splits)

lemma DeleteUser_connected:
  "Connection env (producer s) = (Inr db, p) \<Longrightarrow>
   DeleteUser env req s =
     (fst (DeleteUser_commands env db (del_Username req) (s\<lparr>producer := p\<rparr>)),
      deferred_close env (snd (DeleteUser_commands env db (del_Username req) (s\<lparr>producer := p\<rparr>))))"
  by (simp add: DeleteUser_def split: prod.splits)

lemma changeUserPassword_connected:
  "Connection env (producer s) = (Inr db, p) \<Longrightarrow>
   changeUserPassword env u pw s =
     (fst (changeUserPassword_commands env db u pw (s\<lparr>producer := p\<rparr>)),
      deferred_close env (snd (changeUserPassword_commands env db u pw (s\<lparr>producer := p\<rparr>))))"
  by (simp add: changeUserPassword_def split: prod.splits)

text \<open>
  Claim C7. Whenever \<^verbatim>\<open>DeleteUser\<close> or a password-rotating \<^verbatim>\<open>UpdateUser\<close> has obtained
  its client handle, the producer ends in the state in which \<^verbatim>\<open>close\<close> leaves the one
  that \<^verbatim>\<open>Connection\<close> returned, whatever the commands did; an error of \<^verbatim>\<open>close\<close> adds
  one entry to the log and nothing else: the outcome of the call is the same for every
  \<^verbatim>\<open>close\<close>.
\<close>

theorem close_always_runs_and_its_error_is_only_logged:
  assumes conn: "Connection env (producer s) = (Inr db, p)"
    and pw: "upd_Password ureq = Some newPassword"
  shows "producer (snd (DeleteUser env dreq s)) = snd (close env p) \<and>
         hclog (snd (DeleteUser env dreq s)) =
           hclog s @ (case fst (close env p) of
                        None \<Rightarrow> []
                      | Some err \<Rightarrow> [(''defer close failed'', err)]) \<and>
         fst (DeleteUser (env\<lparr>close := c\<rparr>) dreq s) = fst (DeleteUser env dreq s) \<and>
         producer (snd (UpdateUser env ureq s)) = snd (close env p) \<and>
         hclog (snd (UpdateUser env ureq s)) =
           hclog s @ (case fst (close env p) of
                        None \<Rightarrow> []
                      | Some err \<Rightarrow> [(''defer close failed'', err)]) \<and>
         fst (UpdateUser (env\<lparr>close := c\<rparr>) ureq s) = fst (UpdateUser env ureq s)"
proof -
  have conn': "Connection (env\<lparr>close := c\<rparr>) (producer s) = (Inr db, p)"
    using conn by simp
  have d1: "producer (snd (DeleteUser env dreq s)) = snd (close env p)"
    by (simp add: DeleteUser_connected [OF conn] deferred_close_simps DeleteUser_commands_frame)
  have d2: "hclog (snd (DeleteUser env dreq s)) =
           hclog s @ (case fst (close env p) of
                        None \<Rightarrow> []
                      | Some err \<Rightarrow> [(''defer close failed'', err)])"
    by (simp add: DeleteUser_connected [OF conn] deferred_close_simps DeleteUser_commands_frame)
  have d3: "fst (DeleteUser (env\<lparr>close := c\<rparr>) dreq s) = fst (DeleteUser env dreq s)"
    by (simp add: DeleteUser_connected [OF conn] DeleteUser_connected [OF conn']
        DeleteUser_commands_close_irrelevant)
  have u: "UpdateUser env ureq s = changeUserPassword env (upd_Username ureq) newPassword s"
    "UpdateUser (env\<lparr>close := c\<rparr>) ureq s
       = changeUserPassword (env\<lparr>close := c\<rparr>) (upd_Username ureq) newPassword s"
    using pw by (simp_all add: UpdateUser_def)
  have u1: "producer (snd (UpdateUser env ureq s)) = snd (close env p)"
    by (simp add: u changeUserPassword_connected [OF conn] deferred_close_simps
        changeUserPassword_commands_frame)
  have u2: "hclog (snd (UpdateUser env ureq s)) =
           hclog s @ (case fst (close env p) of
                        None \<Rightarrow> []
                      | Some err \<Rightarrow> [(''defer close failed'', err)])"
    by (simp add: u changeUserPassword_connected [OF conn] deferred_close_simps
        changeUserPassword_commands_frame)
  have u3: "fst (UpdateUser (env\<lparr>close := c\<rparr>) ureq s) = fst (UpdateUser env ureq s)"
    by (simp add: u changeUserPassword_connected [OF conn] changeUserPassword_connected [OF conn']
        changeUserPassword_commands_close_irrelevant)
  from d1 d2 d3 u1 u2 u3 show ?thesis by blast
qed

theorem close_always_runs_and_its_error_is_only_logged_witness:
  "Connection (reference_env (Inr (Pool ''n1'')) (Some (Cause ''close failed'')))
      (producer (start \<lparr>users = [], failing = [(''n1'', ''DELUSER'')]\<rparr>))
     = (Inr (Pool ''n1''), Some (Pool ''n1'')) \<and>
   upd_Password \<lparr>upd_Username = ''U'', upd_Password = Some ''pw''\<rparr> = Some ''pw'' \<and>
   fst (DeleteUser (reference_env (Inr (Pool ''n1'')) (Some (Cause ''close failed'')))
      \<lparr>del_Username = ''U''\<rparr> (start \<lparr>users = [], failing = [(''n1'', ''DELUSER'')]\<rparr>))
     = Return (Some (Errorf ''response from pool DeleteUser: %s, error: %w''
         [S [], E (Cause ''ERR'')])) \<and>
   producer (snd (DeleteUser (reference_env (Inr (Pool ''n1'')) (Some (Cause ''close failed'')))
      \<lparr>del_Username = ''U''\<rparr> (start \<lparr>users = [], failing = [(''n1'', ''DELUSER'')]\<rparr>))) = None \<and>
   hclog (snd (DeleteUser (reference_env (Inr (Pool ''n1'')) (Some (Cause ''close failed'')))
      \<lparr>del_Username = ''U''\<rparr> (start \<lparr>users = [], failing = [(''n1'', ''DELUSER'')]\<rparr>)))
     = [(''defer close failed'', Cause ''close failed'')] \<and>
   producer (snd (UpdateUser (reference_env (Inr (Pool ''n1'')) (Some (Cause ''close failed'')))
      \<lparr>upd_Username = ''U'', upd_Password = Some ''pw''\<rparr>
      (start \<lparr>users = [], failing = [(''n1'', ''DELUSER'')]\<rparr>))) = None \<and>
   hclog (snd (UpdateUser (reference_env (Inr (Pool ''n1'')) (Some (Cause ''close failed'')))
      \<lparr>upd_Username = ''U'', upd_Password = Some ''pw''\<rparr>
      (start \<lparr>users = [], failing = [(''n1'', ''DELUSER'')]\<rparr>)))
     = [(''defer close failed'', Cause ''close failed'')]"
proof -
  have conn: "Connection (reference_env (Inr (Pool ''n1'')) (Some (Cause ''close failed'')))
      (producer (start \<lparr>users = [], failing = [(''n1'', ''DELUSER'')]\<rparr>))
     = (Inr (Pool ''n1''), Some (Pool ''n1''))"
    by (simp add: reference_env_simps producer_Connection_def start_def)
  have pw: "upd_Password \<lparr>upd_Username = ''U'', upd_Password = Some ''pw''\<rparr> = Some ''pw''"
    by simp
  have out: "fst (DeleteUser (reference_env (Inr (Pool ''n1'')) (Some (Cause ''close failed'')))
      \<lparr>del_Username = ''U''\<rparr> (start \<lparr>users = [], failing = [(''n1'', ''DELUSER'')]\<rparr>))
     = Return (Some (Errorf ''response from pool DeleteUser: %s, error: %w''
         [S [], E (Cause ''ERR'')]))"
    by (simp add: DeleteUser_def reference_env_simps producer_Connection_def exec_eq
        redis_Do_def start_def)
  show ?thesis
    using conn pw out
      close_always_runs_and_its_error_is_only_logged [OF conn pw,
        of "\<lparr>del_Username = ''U''\<rparr>" "producer_close None"]
    by (simp add: reference_env_simps producer_close_def start_def)
qed

subsection \<open>The error of the per-node client\<close>

lemma DeleteUser_cluster_client_error:
  "DeleteUser_cluster env (cl\<lparr>Client := \<lambda>n. (fst (Client cl n), e n)\<rparr>) u nodes response s =
   DeleteUser_cluster env cl u nodes response s"
  by (induction nodes arbitrary: response s)
     (auto split: prod.splits reply.splits)

lemma newUser_cluster_client_error:
  "newUser_cluster env (cl\<lparr>Client := \<lambda>n. (fst (Client cl n), e n)\<rparr>) cmd nodes s =
   newUser_cluster env cl cmd nodes s"
  by (induction nodes arbitrary: s)
     (auto split: prod.splits reply.splits)

lemma changeUserPassword_lookup_client_error:
  "changeUserPassword_lookup env (cl\<lparr>Client := \<lambda>n. (fst (Client cl n), e n)\<rparr>) u nodes s =
   changeUserPassword_lookup env cl u nodes s"
  by (induction nodes arbitrary: s)
     (auto split: prod.splits reply.splits)

lemma changeUserPassword_reset_client_error:
  "changeUserPassword_reset env (cl\<lparr>Client := \<lambda>n. (fst (Client cl n), e n)\<rparr>) u pw nodes
     sresponse s =
   changeUserPassword_reset env cl u pw nodes sresponse s"
  by (induction nodes arbitrary: sresponse s)
     (auto split: prod.splits reply.splits)

text \<open>
  Claim C10. In each of the cluster loops the error that \<^verbatim>\<open>Client\<close> returns is never
  read: whatever errors \<^verbatim>\<open>Client\<close> reports for the nodes, \<^verbatim>\<open>DeleteUser\<close>, \<^verbatim>\<open>newUser\<close>
  and \<^verbatim>\<open>changeUserPassword\<close> send the same commands and end with the same outcome, which
  is decided by the commands alone (or is the panic of calling a nil client).
\<close>

theorem client_error_is_discarded:
  "DeleteUser_commands env (Cluster (cl\<lparr>Client := \<lambda>n. (fst (Client cl n), e n)\<rparr>)) u s =
     DeleteUser_commands env (Cluster cl) u s \<and>
   newUser env (Cluster (cl\<lparr>Client := \<lambda>n. (fst (Client cl n), e n)\<rparr>)) u req s =
     newUser env (Cluster cl) u req s \<and>
   changeUserPassword_commands env (Cluster (cl\<lparr>Client := \<lambda>n. (fst (Client cl n), e n)\<rparr>))
       u pw s =
     changeUserPassword_commands env (Cluster cl) u pw s"
  by (auto simp: newUser_def Let_def DeleteUser_cluster_client_error
      newUser_cluster_client_error changeUserPassword_lookup_client_error
      changeUserPassword_reset_client_error
      split: list.splits sum.splits prod.splits outcome.splits option.splits)

theorem client_error_is_discarded_witness:
  "DeleteUser_commands (reference_env (Inr (Cluster three_nodes)) None)
      (Cluster (three_nodes\<lparr>Client := \<lambda>n. (True, Some (Cause ''dial failed''))\<rparr>)) ''U''
      (start \<lparr>users = [(''n1'', ''U'')], failing = []\<rparr>) =
   (Return None,
    \<lparr>producer = None, world = \<lparr>users = [], failing = []\<rparr>,
     sent = [(''n1'', [''ACL'', ''DELUSER'', ''U'']), (''n2'', [''ACL'', ''DELUSER'', ''U'']),
             (''n3'', [''ACL'', ''DELUSER'', ''U''])],
     hclog = []\<rparr>)"
proof -
  have c: "(\<lambda>n. (fst (Client three_nodes n), Some (Cause ''dial failed'')))
      = (\<lambda>n. (True, Some (Cause ''dial failed'')))"
    by (simp add: three_nodes_def)
  have r: "DeleteUser_commands (reference_env (Inr (Cluster three_nodes)) None)
      (Cluster three_nodes) ''U'' (start \<lparr>users = [(''n1'', ''U'')], failing = []\<rparr>) =
   (Return None,
    \<lparr>producer = None, world = \<lparr>users = [], failing = []\<rparr>,
     sent = [(''n1'', [''ACL'', ''DELUSER'', ''U'']), (''n2'', [''ACL'', ''DELUSER'', ''U'']),
             (''n3'', [''ACL'', ''DELUSER'', ''U''])],
     hclog = []\<rparr>)"
    by (simp add: reference_env_simps three_nodes_def exec_eq redis_Do_def start_def)
  show ?thesis
    using c r
      client_error_is_discarded [of "reference_env (Inr (Cluster three_nodes)) None"
        three_nodes "\<lambda>n. Some (Cause ''dial failed'')" "''U''"
        "start \<lparr>users = [(''n1'', ''U'')], failing = []\<rparr>"]
    by simp
qed

subsection \<open>Rotating the password of an absent user\<close>

lemma UpdateUser_connected:
  "upd_Password req = Some pw \<Longrightarrow> Connection env (producer s) = (Inr db, p) \<Longrightarrow>
   UpdateUser env req s =
     (fst (changeUserPassword_commands env db (upd_Username req) pw (s\<lparr>producer := p\<rparr>)),
      deferred_close env
        (snd (changeUserPassword_commands env db (upd_Username req) pw (s\<lparr>producer := p\<rparr>))))"
  by (simp add: UpdateUser_def changeUserPassword_connected)

text \<open>
  Claim C3. A user is absent where the lookup \<^verbatim>\<open>ACL GETUSER\<close> is answered by nil. Rotating
  the password of a user that the single node, or the first node of the cluster that is
  visited, does not have fails with the user-not-found error; the lookup is the only
  command sent, so no password reset is issued, and the store is in the state in which
  the lookup left it.
\<close>

theorem UpdateUser_absent_user_not_found:
  assumes pw: "upd_Password req = Some newPassword"
  shows "(Connection env (producer s) = (Inr (Pool n), p) \<and>
          fst (Do env n [''ACL'', ''GETUSER'', upd_Username req] (world s)) = NilReply \<longrightarrow>
            fst (UpdateUser env req s) =
              Return (Some (Errorf ''changeUserPassword for user %s failed, user not found!''
                [S (upd_Username req)])) \<and>
            sent (snd (UpdateUser env req s)) =
              sent s @ [(n, [''ACL'', ''GETUSER'', upd_Username req])] \<and>
            world (snd (UpdateUser env req s)) =
              snd (Do env n [''ACL'', ''GETUSER'', upd_Username req] (world s))) \<and>
         (Connection env (producer s) = (Inr (Cluster cl), p) \<and>
          Topo cl 0 = k # rest \<and> fst (Client cl k) \<and>
          fst (Do env k [''ACL'', ''GETUSER'', upd_Username req] (world s)) = NilReply \<longrightarrow>
            fst (UpdateUser env req s) =
              Return (Some (Errorf
                ''changeUserPassword for user %s failed on cluster member %s, user not found!''
                [S k, S (upd_Username req)])) \<and>
            sent (snd (UpdateUser env req s)) =
              sent s @ [(k, [''ACL'', ''GETUSER'', upd_Username req])] \<and>
            world (snd (UpdateUser env req s)) =
              snd (Do env k [''ACL'', ''GETUSER'', upd_Username req] (world s)))"
proof (intro conjI impI)
  assume a: "Connection env (producer s) = (Inr (Pool n), p) \<and>
          fst (Do env n [''ACL'', ''GETUSER'', upd_Username req] (world s)) = NilReply"
  then have conn: "Connection env (producer s) = (Inr (Pool n), p)" by simp
  from a have c: "changeUserPassword_commands env (Pool n) (upd_Username req) newPassword
        (s\<lparr>producer := p\<rparr>)
      = (Return (Some (Errorf ''changeUserPassword for user %s failed, user not found!''
                [S (upd_Username req)])),
         s\<lparr>producer := p,
           world := snd (Do env n [''ACL'', ''GETUSER'', upd_Username req] (world s)),
           sent := sent s @ [(n, [''ACL'', ''GETUSER'', upd_Username req])]\<rparr>)"
    by (simp add: exec_eq)
  show "fst (UpdateUser env req s) =
      Return (Some (Errorf ''changeUserPassword for user %s failed, user not found!''
                [S (upd_Username req)]))"
    by (simp add: UpdateUser_connected [OF pw conn] c del: changeUserPassword_commands.simps)
  show "sent (snd (UpdateUser env req s)) =
      sent s @ [(n, [''ACL'', ''GETUSER'', upd_Username req])]"
    by (simp add: UpdateUser_connected [OF pw conn] c deferred_close_simps
        del: changeUserPassword_commands.simps)
  show "world (snd (UpdateUser env req s)) =
      snd (Do env n [''ACL'', ''GETUSER'', upd_Username req] (world s))"
    by (simp add: UpdateUser_connected [OF pw conn] c deferred_close_simps
        del: changeUserPassword_commands.simps)
next
  assume a: "Connection env (producer s) = (Inr (Cluster cl), p) \<and>
          Topo cl 0 = k # rest \<and> fst (Client cl k) \<and>
          fst (Do env k [''ACL'', ''GETUSER'', upd_Username req] (world s)) = NilReply"
  then have conn: "Connection env (producer s) = (Inr (Cluster cl), p)" by simp
  from a have c: "changeUserPassword_commands env (Cluster cl) (upd_Username req) newPassword
        (s\<lparr>producer := p\<rparr>)
      = (Return (Some (Errorf
            ''changeUserPassword for user %s failed on cluster member %s, user not found!''
            [S k, S (upd_Username req)])),
         s\<lparr>producer := p,
           world := snd (Do env k [''ACL'', ''GETUSER'', upd_Username req] (world s)),
           sent := sent s @ [(k, [''ACL'', ''GETUSER'', upd_Username req])]\<rparr>)"
    by (simp add: exec_eq)
  show "fst (UpdateUser env req s) =
      Return (Some (Errorf
            ''changeUserPassword for user %s failed on cluster member %s, user not found!''
            [S k, S (upd_Username req)]))"
    by (simp add: UpdateUser_connected [OF pw conn] c del: changeUserPassword_commands.simps)
  show "sent (snd (UpdateUser env req s)) =
      sent s @ [(k, [''ACL'', ''GETUSER'', upd_Username req])]"
    by (simp add: UpdateUser_connected [OF pw conn] c deferred_close_simps
        del: changeUserPassword_commands.simps)
  show "world (snd (UpdateUser env req s)) =
      snd (Do env k [''ACL'', ''GETUSER'', upd_Username req] (world s))"
    by (simp add: UpdateUser_connected [OF pw conn] c deferred_close_simps
        del: changeUserPassword_commands.simps)
qed

theorem UpdateUser_absent_user_not_found_witness:
  "fst (UpdateUser (reference_env (Inr (Pool ''n1'')) None)
      \<lparr>upd_Username = ''GHOST'', upd_Password = Some ''pw''\<rparr>
      (start \<lparr>users = [(''n1'', ''U'')], failing = []\<rparr>)) =
    Return (Some (Errorf ''changeUserPassword for user %s failed, user not found!''
      [S ''GHOST''])) \<and>
   sent (snd (UpdateUser (reference_env (Inr (Pool ''n1'')) None)
      \<lparr>upd_Username = ''GHOST'', upd_Password = Some ''pw''\<rparr>
      (start \<lparr>users = [(''n1'', ''U'')], failing = []\<rparr>))) =
    [(''n1'', [''ACL'', ''GETUSER'', ''GHOST''])] \<and>
   world (snd (UpdateUser (reference_env (Inr (Pool ''n1'')) None)
      \<lparr>upd_Username = ''GHOST'', upd_Password = Some ''pw''\<rparr>
      (start \<lparr>users = [(''n1'', ''U'')], failing = []\<rparr>))) =
    \<lparr>users = [(''n1'', ''U'')], failing = []\<rparr> \<and>
   fst (UpdateUser (reference_env (Inr (Cluster three_nodes)) None)
      \<lparr>upd_Username = ''GHOST'', upd_Password = Some ''pw''\<rparr>
      (start \<lparr>users = [(''n1'', ''U'')], failing = []\<rparr>)) =
    Return (Some (Errorf
      ''changeUserPassword for user %s failed on cluster member %s, user not found!''
      [S ''n1'', S ''GHOST''])) \<and>
   sent (snd (UpdateUser (reference_env (Inr (Cluster three_nodes)) None)
      \<lparr>upd_Username = ''GHOST'', upd_Password = Some ''pw''\<rparr>
      (start \<lparr>users = [(''n1'', ''U'')], failing = []\<rparr>))) =
    [(''n1'', [''ACL'', ''GETUSER'', ''GHOST''])] \<and>
   world (snd (UpdateUser (reference_env (Inr (Cluster three_nodes)) None)
      \<lparr>upd_Username = ''GHOST'', upd_Password = Some ''pw''\<rparr>
      (start \<lparr>users = [(''n1'', ''U'')], failing = []\<rparr>))) =
    \<lparr>users = [(''n1'', ''U'')], failing = []\<rparr>"
proof -
  have pw: "upd_Password \<lparr>upd_Username = ''GHOST'', upd_Password = Some ''pw''\<rparr> = Some ''pw''"
    by simp
  have pool: "Connection (reference_env (Inr (Pool ''n1'')) None)
      (producer (start \<lparr>users = [(''n1'', ''U'')], failing = []\<rparr>))
     = (Inr (Pool ''n1''), Some (Pool ''n1''))"
    by (simp add: reference_env_simps producer_Connection_def start_def)
  have cluster: "Connection (reference_env (Inr (Cluster three_nodes)) None)
      (producer (start \<lparr>users = [(''n1'', ''U'')], failing = []\<rparr>))
     = (Inr (Cluster three_nodes), Some (Cluster three_nodes))"
    by (simp add: reference_env_simps producer_Connection_def start_def)
  have topo: "Topo three_nodes 0 = ''n1'' # [''n2'', ''n3'']" "fst (Client three_nodes ''n1'')"
    by (simp_all add: three_nodes_def)
  have nil: "fst (redis_Do ''n1'' [''ACL'', ''GETUSER'', ''GHOST'']
      \<lparr>users = [(''n1'', ''U'')], failing = []\<rparr>) = NilReply"
    "snd (redis_Do ''n1'' [''ACL'', ''GETUSER'', ''GHOST'']
      \<lparr>users = [(''n1'', ''U'')], failing = []\<rparr>) = \<lparr>users = [(''n1'', ''U'')], failing = []\<rparr>"
    by (simp_all add: redis_Do_def)
  have w: "world (start \<lparr>users = [(''n1'', ''U'')], failing = []\<rparr>)
      = \<lparr>users = [(''n1'', ''U'')], failing = []\<rparr>"
    "sent (start \<lparr>users = [(''n1'', ''U'')], failing = []\<rparr>) = []"
    by (simp_all add: start_def)
  show ?thesis
    using UpdateUser_absent_user_not_found [OF pw,
        where env = "reference_env (Inr (Pool ''n1'')) None"
          and s = "start \<lparr>users = [(''n1'', ''U'')], failing = []\<rparr>"
          and n = "''n1''" and p = "Some (Pool ''n1'')"]
      UpdateUser_absent_user_not_found [OF pw,
        where env = "reference_env (Inr (Cluster three_nodes)) None"
          and s = "start \<lparr>users = [(''n1'', ''U'')], failing = []\<rparr>"
          and cl = three_nodes and p = "Some (Cluster three_nodes)"
          and k = "''n1''" and rest = "[''n2'', ''n3'']"]
      pool cluster topo nil w
    by (simp add: reference_env_simps)
qed

subsection \<open>The rules of a new user\<close>













subsection \<open>Rotation on a cluster\<close>

lemma changeUserPassword_cluster_complete:
  assumes "has_client cl (Topo cl 0)" and "has_client cl (Topo cl 1)"
    and "found env [''ACL'', ''GETUSER'', u] (Topo cl 0) (world s)"
    and "accepted env [''ACL'', ''SETUSER'', u, ''RESETPASS'', ''>'' @ pw] (Topo cl 1)
           (after env [''ACL'', ''GETUSER'', u] (Topo cl 0) (world s))"
  shows "changeUserPassword_commands env (Cluster cl) u pw s =
     (Return None,
      s\<lparr>world := after env [''ACL'', ''SETUSER'', u, ''RESETPASS'', ''>'' @ pw] (Topo cl 1)
                   (after env [''ACL'', ''GETUSER'', u] (Topo cl 0) (world s)),
        sent := sent s @ to_each [''ACL'', ''GETUSER'', u] (Topo cl 0)
                  @ to_each [''ACL'', ''SETUSER'', u, ''RESETPASS'', ''>'' @ pw] (Topo cl 1)\<rparr>)"
  using assms
  by (simp add: changeUserPassword_lookup_complete changeUserPassword_reset_complete)

lemma changeUserPassword_cluster_missing:
  assumes "Topo cl 0 = pre @ k # post" and "has_client cl (pre @ [k])"
    and "found env [''ACL'', ''GETUSER'', u] pre (world s)"
    and "fst (Do env k [''ACL'', ''GETUSER'', u] (after env [''ACL'', ''GETUSER'', u] pre (world s)))
           = NilReply"
  shows "changeUserPassword_commands env (Cluster cl) u pw s =
     (Return (Some (Errorf
        ''changeUserPassword for user %s failed on cluster member %s, user not found!''
        [S k, S u])),
      s\<lparr>world := after env [''ACL'', ''GETUSER'', u] (pre @ [k]) (world s),
        sent := sent s @ to_each [''ACL'', ''GETUSER'', u] (pre @ [k])\<rparr>)"
  using assms
  by (simp add: changeUserPassword_lookup_missing)


lemma changeUserPassword_cluster_reset_stops:
  assumes "has_client cl (Topo cl 0)"
    and "found env [''ACL'', ''GETUSER'', u] (Topo cl 0) (world s)"
    and "Topo cl 1 = pre @ k # post" and "has_client cl (pre @ [k])"
    and "accepted env [''ACL'', ''SETUSER'', u, ''RESETPASS'', ''>'' @ pw] pre
           (after env [''ACL'', ''GETUSER'', u] (Topo cl 0) (world s))"
    and "fst (Do env k [''ACL'', ''SETUSER'', u, ''RESETPASS'', ''>'' @ pw]
           (after env [''ACL'', ''SETUSER'', u, ''RESETPASS'', ''>'' @ pw] pre
              (after env [''ACL'', ''GETUSER'', u] (Topo cl 0) (world s)))) = Failed err"
  shows "changeUserPassword_commands env (Cluster cl) u pw s =
     (Return (Some (Errorf
        ''cluster reset of password for user %s on node %s failed, REDIS response %s, error, %s''
        [S u, S k,
         S (heard env [''ACL'', ''SETUSER'', u, ''RESETPASS'', ''>'' @ pw] pre
              (after env [''ACL'', ''GETUSER'', u] (Topo cl 0) (world s)) []),
         E err])),
      s\<lparr>world := after env [''ACL'', ''SETUSER'', u, ''RESETPASS'', ''>'' @ pw] (pre @ [k])
                   (after env [''ACL'', ''GETUSER'', u] (Topo cl 0) (world s)),
        sent := sent s @ to_each [''ACL'', ''GETUSER'', u] (Topo cl 0)
                  @ to_each [''ACL'', ''SETUSER'', u, ''RESETPASS'', ''>'' @ pw] (pre @ [k])\<rparr>)"
  using assms
  by (simp add: changeUserPassword_lookup_complete changeUserPassword_reset_stops)

text \<open>What a call that got its handle leaves behind, in terms of its commands.\<close>

lemma UpdateUser_result:
  assumes "upd_Password req = Some pw" and "Connection env (producer s) = (Inr db, p)"
    and "changeUserPassword_commands env db (upd_Username req) pw (s\<lparr>producer := p\<rparr>)
           = (out, s\<lparr>producer := p, world := w, sent := t\<rparr>)"
  shows "fst (UpdateUser env req s) = out \<and> sent (snd (UpdateUser env req s)) = t \<and>
         world (snd (UpdateUser env req s)) = w"
  using assms
  by (simp add: UpdateUser_connected deferred_close_simps del: changeUserPassword_commands.simps)


text \<open>
  Claim C2. A password rotation on a cluster sends the lookup to every node and then the
  reset to every node, each in the order in which its loop enumerates them. If the lookup
  finds the user on the nodes visited first and not on node \<open>k\<close>, the call fails with
  the user-not-found error and no reset has been sent. If the reset fails on node \<open>k\<close>,
  the nodes visited before have been reset and nothing more is sent: no command undoes
  them.
\<close>

theorem cluster_rotation_is_per_node:
  fixes env :: "('p, 'w) env"
  assumes pw: "upd_Password req = Some newPassword"
    and conn: "Connection env (producer s) = (Inr (Cluster cl), p)"
  defines "lookup \<equiv> [''ACL'', ''GETUSER'', upd_Username req]"
    and "reset \<equiv> [''ACL'', ''SETUSER'', upd_Username req, ''RESETPASS'', ''>'' @ newPassword]"
  shows "(has_client cl (Topo cl 0) \<and> has_client cl (Topo cl 1) \<and>
          found env lookup (Topo cl 0) (world s) \<and>
          accepted env reset (Topo cl 1) (after env lookup (Topo cl 0) (world s)) \<longrightarrow>
            fst (UpdateUser env req s) = Return None \<and>
            sent (snd (UpdateUser env req s)) =
              sent s @ to_each lookup (Topo cl 0) @ to_each reset (Topo cl 1)) \<and>
         (Topo cl 0 = pre @ k # post \<and> has_client cl (pre @ [k]) \<and>
          found env lookup pre (world s) \<and>
          fst (Do env k lookup (after env lookup pre (world s))) = NilReply \<longrightarrow>
            fst (UpdateUser env req s) =
              Return (Some (Errorf
                ''changeUserPassword for user %s failed on cluster member %s, user not found!''
                [S k, S (upd_Username req)])) \<and>
            sent (snd (UpdateUser env req s)) = sent s @ to_each lookup (pre @ [k])) \<and>
         (has_client cl (Topo cl 0) \<and> found env lookup (Topo cl 0) (world s) \<and>
          Topo cl 1 = pre @ k # post \<and> has_client cl (pre @ [k]) \<and>
          accepted env reset pre (after env lookup (Topo cl 0) (world s)) \<and>
          fst (Do env k reset (after env reset pre (after env lookup (Topo cl 0) (world s))))
            = Failed err \<longrightarrow>
            fst (UpdateUser env req s) =
              Return (Some (Errorf
                ''cluster reset of password for user %s on node %s failed, REDIS response %s, error, %s''
                [S (upd_Username req), S k,
                 S (heard env reset pre (after env lookup (Topo cl 0) (world s)) []),
                 E err])) \<and>
            sent (snd (UpdateUser env req s)) =
              sent s @ to_each lookup (Topo cl 0) @ to_each reset (pre @ [k]) \<and>
            world (snd (UpdateUser env req s)) =
              after env reset (pre @ [k]) (after env lookup (Topo cl 0) (world s)))"
proof (intro conjI impI)
  assume a: "has_client cl (Topo cl 0) \<and> has_client cl (Topo cl 1) \<and>
          found env lookup (Topo cl 0) (world s) \<and>
          accepted env reset (Topo cl 1) (after env lookup (Topo cl 0) (world s))"
  have r: "fst (UpdateUser env req s) = Return None \<and>
      sent (snd (UpdateUser env req s)) =
        sent s @ to_each lookup (Topo cl 0) @ to_each reset (Topo cl 1) \<and>
      world (snd (UpdateUser env req s)) =
        after env reset (Topo cl 1) (after env lookup (Topo cl 0) (world s))"
    using a unfolding lookup_def reset_def
    by (intro UpdateUser_result [OF pw conn])
       (simp add: changeUserPassword_cluster_complete del: changeUserPassword_commands.simps)
  from r show "fst (UpdateUser env req s) = Return None" by simp
  from r show "sent (snd (UpdateUser env req s)) =
        sent s @ to_each lookup (Topo cl 0) @ to_each reset (Topo cl 1)" by simp
next
  assume a: "Topo cl 0 = pre @ k # post \<and> has_client cl (pre @ [k]) \<and>
          found env lookup pre (world s) \<and>
          fst (Do env k lookup (after env lookup pre (world s))) = NilReply"
  have r: "fst (UpdateUser env req s) =
        Return (Some (Errorf
          ''changeUserPassword for user %s failed on cluster member %s, user not found!''
          [S k, S (upd_Username req)])) \<and>
      sent (snd (UpdateUser env req s)) = sent s @ to_each lookup (pre @ [k]) \<and>
      world (snd (UpdateUser env req s)) = after env lookup (pre @ [k]) (world s)"
    using a unfolding lookup_def reset_def
    by (intro UpdateUser_result [OF pw conn])
       (simp add: changeUserPassword_cluster_missing [where post = post]
          del: changeUserPassword_commands.simps)
  from r show "fst (UpdateUser env req s) =
        Return (Some (Errorf
          ''changeUserPassword for user %s failed on cluster member %s, user not found!''
          [S k, S (upd_Username req)]))" by simp
  from r show "sent (snd (UpdateUser env req s)) = sent s @ to_each lookup (pre @ [k])"
    by simp
next
  assume a: "has_client cl (Topo cl 0) \<and> found env lookup (Topo cl 0) (world s) \<and>
          Topo cl 1 = pre @ k # post \<and> has_client cl (pre @ [k]) \<and>
          accepted env reset pre (after env lookup (Topo cl 0) (world s)) \<and>
          fst (Do env k reset (after env reset pre (after env lookup (Topo cl 0) (world s))))
            = Failed err"
  have r: "fst (UpdateUser env req s) =
        Return (Some (Errorf
          ''cluster reset of password for user %s on node %s failed, REDIS response %s, error, %s''
          [S (upd_Username req), S k,
           S (heard env reset pre (after env lookup (Topo cl 0) (world s)) []), E err])) \<and>
      sent (snd (UpdateUser env req s)) =
        sent s @ to_each lookup (Topo cl 0) @ to_each reset (pre @ [k]) \<and>
      world (snd (UpdateUser env req s)) =
        after env reset (pre @ [k]) (after env lookup (Topo cl 0) (world s))"
    using a unfolding lookup_def reset_def
    by (intro UpdateUser_result [OF pw conn])
       (simp add: changeUserPassword_cluster_reset_stops [where post = post]
          del: changeUserPassword_commands.simps)
  from r show "fst (UpdateUser env req s) =
        Return (Some (Errorf
          ''cluster reset of password for user %s on node %s failed, REDIS response %s, error, %s''
          [S (upd_Username req), S k,
           S (heard env reset pre (after env lookup (Topo cl 0) (world s)) []), E err]))"
    by simp
  from r show "sent (snd (UpdateUser env req s)) =
        sent s @ to_each lookup (Topo cl 0) @ to_each reset (pre @ [k])" by simp
  from r show "world (snd (UpdateUser env req s)) =
        after env reset (pre @ [k]) (after env lookup (Topo cl 0) (world s))" by simp
qed


theorem cluster_rotation_is_per_node_witness:
  "fst (UpdateUser (reference_env (Inr (Cluster three_nodes)) None)
      \<lparr>upd_Username = ''U'', upd_Password = Some ''pw''\<rparr>
      (start \<lparr>users = [(''n1'', ''U''), (''n2'', ''U''), (''n3'', ''U'')], failing = []\<rparr>))
     = Return None \<and>
   sent (snd (UpdateUser (reference_env (Inr (Cluster three_nodes)) None)
      \<lparr>upd_Username = ''U'', upd_Password = Some ''pw''\<rparr>
      (start \<lparr>users = [(''n1'', ''U''), (''n2'', ''U''), (''n3'', ''U'')], failing = []\<rparr>)))
     = [(''n1'', [''ACL'', ''GETUSER'', ''U'']), (''n2'', [''ACL'', ''GETUSER'', ''U'']),
        (''n3'', [''ACL'', ''GETUSER'', ''U'']),
        (''n1'', [''ACL'', ''SETUSER'', ''U'', ''RESETPASS'', ''>pw'']),
        (''n2'', [''ACL'', ''SETUSER'', ''U'', ''RESETPASS'', ''>pw'']),
        (''n3'', [''ACL'', ''SETUSER'', ''U'', ''RESETPASS'', ''>pw''])] \<and>
   fst (UpdateUser (reference_env (Inr (Cluster three_nodes)) None)
      \<lparr>upd_Username = ''U'', upd_Password = Some ''pw''\<rparr>
      (start \<lparr>users = [(''n1'', ''U''), (''n2'', ''U'')], failing = []\<rparr>))
     = Return (Some (Errorf
         ''changeUserPassword for user %s failed on cluster member %s, user not found!''
         [S ''n3'', S ''U''])) \<and>
   sent (snd (UpdateUser (reference_env (Inr (Cluster three_nodes)) None)
      \<lparr>upd_Username = ''U'', upd_Password = Some ''pw''\<rparr>
      (start \<lparr>users = [(''n1'', ''U''), (''n2'', ''U'')], failing = []\<rparr>)))
     = [(''n1'', [''ACL'', ''GETUSER'', ''U'']), (''n2'', [''ACL'', ''GETUSER'', ''U'']),
        (''n3'', [''ACL'', ''GETUSER'', ''U''])] \<and>
   sent (snd (UpdateUser (reference_env (Inr (Cluster three_nodes)) None)
      \<lparr>upd_Username = ''U'', upd_Password = Some ''pw''\<rparr>
      (start \<lparr>users = [(''n1'', ''U''), (''n2'', ''U''), (''n3'', ''U'')],
              failing = [(''n2'', ''SETUSER'')]\<rparr>)))
     = [(''n1'', [''ACL'', ''GETUSER'', ''U'']), (''n2'', [''ACL'', ''GETUSER'', ''U'']),
        (''n3'', [''ACL'', ''GETUSER'', ''U'']),
        (''n1'', [''ACL'', ''SETUSER'', ''U'', ''RESETPASS'', ''>pw'']),
        (''n2'', [''ACL'', ''SETUSER'', ''U'', ''RESETPASS'', ''>pw''])]"
proof -
  let ?E = "reference_env (Inr (Cluster three_nodes)) None :: (client option, redis) env"
  let ?req = "\<lparr>upd_Username = ''U'', upd_Password = Some ''pw''\<rparr>"
  let ?all = "start \<lparr>users = [(''n1'', ''U''), (''n2'', ''U''), (''n3'', ''U'')], failing = []\<rparr>"
  let ?two = "start \<lparr>users = [(''n1'', ''U''), (''n2'', ''U'')], failing = []\<rparr>"
  let ?bad = "start \<lparr>users = [(''n1'', ''U''), (''n2'', ''U''), (''n3'', ''U'')],
                     failing = [(''n2'', ''SETUSER'')]\<rparr>"
  let ?lookup = "[''ACL'', ''GETUSER'', upd_Username ?req]"
  let ?reset = "[''ACL'', ''SETUSER'', upd_Username ?req, ''RESETPASS'', ''>'' @ ''pw'']"
  note defs = reference_env_simps redis_Do_def start_def three_nodes_def has_client_simps
  have pw: "upd_Password ?req = Some ''pw''"
    by simp
  have conn: "Connection ?E (producer s) = (Inr (Cluster three_nodes), Some (Cluster three_nodes))"
    if "producer s = None" for s :: "(client option, redis) state"
    using that by (simp add: reference_env_simps producer_Connection_def)
  have none: "producer ?all = None" "producer ?two = None" "producer ?bad = None"
    by (simp_all add: start_def)
  have a: "has_client three_nodes (Topo three_nodes 0) \<and>
      has_client three_nodes (Topo three_nodes 1) \<and>
      found ?E ?lookup (Topo three_nodes 0) (world ?all) \<and>
      accepted ?E ?reset (Topo three_nodes 1)
        (after ?E ?lookup (Topo three_nodes 0) (world ?all))"
    by (simp add: defs)
  have b: "Topo three_nodes 0 = [''n1'', ''n2''] @ ''n3'' # [] \<and>
      has_client three_nodes ([''n1'', ''n2''] @ [''n3'']) \<and>
      found ?E ?lookup [''n1'', ''n2''] (world ?two) \<and>
      fst (Do ?E ''n3'' ?lookup (after ?E ?lookup [''n1'', ''n2''] (world ?two))) = NilReply"
    by (simp add: defs)
  have c: "has_client three_nodes (Topo three_nodes 0) \<and>
      found ?E ?lookup (Topo three_nodes 0) (world ?bad) \<and>
      Topo three_nodes 1 = [''n1''] @ ''n2'' # [''n3''] \<and>
      has_client three_nodes ([''n1''] @ [''n2'']) \<and>
      accepted ?E ?reset [''n1''] (after ?E ?lookup (Topo three_nodes 0) (world ?bad)) \<and>
      fst (Do ?E ''n2'' ?reset
             (after ?E ?reset [''n1''] (after ?E ?lookup (Topo three_nodes 0) (world ?bad))))
        = Failed (Cause ''ERR'')"
    by (simp add: defs)
  note ra = mp [OF conjunct1 [OF cluster_rotation_is_per_node [OF pw conn [OF none(1)]]] a]
  note rb = mp [OF conjunct1 [OF conjunct2
                [OF cluster_rotation_is_per_node [OF pw conn [OF none(2)]]]] b]
  note rc = mp [OF conjunct2 [OF conjunct2
                [OF cluster_rotation_is_per_node [OF pw conn [OF none(3)]]]] c]
  show ?thesis
    using ra rb rc by (simp add: start_def three_nodes_def to_each_simps)
qed

subsection \<open>The first failure of a fan-out\<close>







subsection \<open>The generated username\<close>













end
